theory Spec2Isabelle
  imports
    Complex_Main
    "HOL-Library.Multiset"
    "HOL-Library.AList"
    "HOL-Library.Char_ord"
    "HOL-Library.List_Lexorder"
    "HOL-Library.Option_ord"
begin

section \<open>Clarity backend: persistence model, repository, aggregation\<close>

text \<open>
  The development follows \<^verbatim>\<open>src/app/database.py\<close> (the two tables),
  \<^verbatim>\<open>src/app/schemas.py\<close> (request and response shapes),
  \<^verbatim>\<open>src/app/crud.py\<close> (repository and aggregation) and
  \<^verbatim>\<open>src/app/main.py\<close> (the endpoints that turn an absent row into a 404).

  Modelling decisions, valid for the whole file:
  \<^item> A \<^verbatim>\<open>Float\<close> column and a Python \<^verbatim>\<open>float\<close> are modelled as \<^typ>\<open>real\<close>:
    sums, quotients and decimal rounding are exact. Overflow to infinity and the
    representation error of binary floating point are outside the model.
  \<^item> A \<^verbatim>\<open>datetime\<close> is the number of microseconds since 0001-01-01T00:00:00, the
    first instant Python can represent; year and month are recovered with the
    algorithm of Python's \<^verbatim>\<open>datetime\<close> module.
  \<^item> A table is the list of its rows in storage order. A query without
    \<^verbatim>\<open>order_by\<close> returns the matching rows in that order.
  \<^item> The storage engine is SQLite, the engine of the default URL and of the
    \<^verbatim>\<open>check_same_thread\<close> connect argument in \<^verbatim>\<open>database.py\<close>: a comparison with
    NULL is not true, NULL sorts below every value, a negative OFFSET skips nothing
    and a negative LIMIT does not bound the result.
\<close>

subsection \<open>Errors\<close>

datatype py_error = OverflowError | IntegrityError | ZeroDivisionError

datatype http_error = HTTPException int string | InternalServerError py_error

subsection \<open>Dates\<close>

type_synonym datetime = nat

definition US_PER_DAY :: nat where
  "US_PER_DAY = 86400000000"

text \<open>Ordinal of 9999-12-31 (\<^verbatim>\<open>date.max.toordinal()\<close>); ordinal 1 is 0001-01-01.\<close>

definition MAXORDINAL :: nat where
  "MAXORDINAL = 3652059"

definition DATETIME_MAX :: nat where
  "DATETIME_MAX = MAXORDINAL * US_PER_DAY - 1"

definition is_leap :: "nat \<Rightarrow> bool" where
  "is_leap y = (y mod 4 = 0 \<and> (y mod 100 \<noteq> 0 \<or> y mod 400 = 0))"

definition DAYS_IN_MONTH :: "nat list" where
  "DAYS_IN_MONTH = [0, 31, 28, 31, 30, 31, 30, 31, 31, 30, 31, 30, 31]"

definition DAYS_BEFORE_MONTH :: "nat list" where
  "DAYS_BEFORE_MONTH = [0, 0, 31, 59, 90, 120, 151, 181, 212, 243, 273, 304, 334]"

text \<open>\<^verbatim>\<open>_days_before_year\<close>, \<^verbatim>\<open>_days_before_month\<close> and \<^verbatim>\<open>_ymd2ord\<close> of the
  datetime module, for years from 1 and months 1 to 12.\<close>

definition days_before_year :: "nat \<Rightarrow> nat" where
  "days_before_year year =
     (let y = year - 1 in y * 365 + y div 4 - y div 100 + y div 400)"

definition days_before_month :: "nat \<Rightarrow> nat \<Rightarrow> nat" where
  "days_before_month year month =
     DAYS_BEFORE_MONTH ! month + (if month > 2 \<and> is_leap year then 1 else 0)"

definition ymd2ord :: "nat \<Rightarrow> nat \<Rightarrow> nat \<Rightarrow> nat" where
  "ymd2ord year month day = days_before_year year + days_before_month year month + day"

text \<open>\<^verbatim>\<open>datetime(year, month, day, hour, minute, second)\<close> on the microsecond line.\<close>

definition mk_datetime :: "nat \<Rightarrow> nat \<Rightarrow> nat \<Rightarrow> nat \<Rightarrow> nat \<Rightarrow> nat \<Rightarrow> datetime" where
  "mk_datetime year month day hour minute second =
     (ymd2ord year month day - 1) * US_PER_DAY
       + ((hour * 60 + minute) * 60 + second) * 1000000"

text \<open>\<^verbatim>\<open>_ord2ymd\<close>: ordinal to (year, month, day).\<close>

definition ord2ymd :: "nat \<Rightarrow> nat \<times> nat \<times> nat" where
  "ord2ymd ordinal =
     (let n = ordinal - 1;
          n400 = n div 146097; n = n mod 146097;
          year = n400 * 400 + 1;
          n100 = n div 36524; n = n mod 36524;
          n4 = n div 1461; n = n mod 1461;
          n1 = n div 365; n = n mod 365;
          year = year + n100 * 100 + n4 * 4 + n1
      in if n1 = 4 \<or> n100 = 4 then (year - 1, 12, 31)
         else
           let leapyear = (n1 = 3 \<and> (n4 \<noteq> 24 \<or> n100 = 3));
               month = (n + 50) div 32;
               preceding = DAYS_BEFORE_MONTH ! month + (if month > 2 \<and> leapyear then 1 else 0)
           in if preceding > n
              then let month = month - 1;
                       preceding = preceding
                         - (DAYS_IN_MONTH ! month + (if month = 2 \<and> leapyear then 1 else 0))
                   in (year, month, n - preceding + 1)
              else (year, month, n - preceding + 1))"

definition dt_year_month :: "datetime \<Rightarrow> nat \<times> nat" where
  "dt_year_month dt = (case ord2ymd (dt div US_PER_DAY + 1) of (y, m, d) \<Rightarrow> (y, m))"

definition digit_char :: "nat \<Rightarrow> char" where
  "digit_char n = ''0123456789'' ! (n mod 10)"

text \<open>\<^verbatim>\<open>dt.strftime("%Y-%m")\<close>: the year with four digits, a dash, the month with two
  (the documented format; a C library that does not pad years below 1000 is not
  modelled).\<close>

definition strftime_Y_m :: "datetime \<Rightarrow> string" where
  "strftime_Y_m dt =
     (case dt_year_month dt of (y, m) \<Rightarrow>
        [digit_char (y div 1000), digit_char (y div 100), digit_char (y div 10), digit_char y,
         CHR ''-'', digit_char (m div 10), digit_char m])"

text \<open>\<^verbatim>\<open>timedelta(days=d)\<close> in microseconds; more than 999999999 days either way raise
  OverflowError.\<close>

definition timedelta_days :: "int \<Rightarrow> py_error + int" where
  "timedelta_days d =
     (if \<bar>d\<bar> > 999999999 then Inl OverflowError else Inr (d * int US_PER_DAY))"

text \<open>\<^verbatim>\<open>dt - delta\<close>: OverflowError when the result leaves year 1 to year 9999.\<close>

definition datetime_sub :: "datetime \<Rightarrow> int \<Rightarrow> py_error + datetime" where
  "datetime_sub dt delta =
     (let r = int dt - delta
      in if r < 0 \<or> r > int DATETIME_MAX then Inl OverflowError else Inr (nat r))"

subsection \<open>Persistence model (database.py)\<close>

record user =
  id_user :: int
  email :: string
  hashed_password :: string
  full_name :: string
  is_active :: bool
  created_at_user :: datetime

text \<open>\<^verbatim>\<open>amount\<close>, \<^verbatim>\<open>category\<close> and \<^verbatim>\<open>transaction_type\<close> are NOT NULL columns;
  \<^verbatim>\<open>description\<close> and \<^verbatim>\<open>date\<close> are nullable.\<close>

record transaction =
  id_tx :: int
  amount :: real
  category :: string
  description :: "string option"
  transaction_type :: string
  date :: "datetime option"
  created_at :: datetime
  user_id :: int

record db =
  users :: "user list"
  transactions :: "transaction list"

text \<open>The row id SQLite gives to an insert into a table with an INTEGER PRIMARY KEY:
  one more than the largest id in the table, 1 for an empty table.\<close>

definition next_rowid :: "int list \<Rightarrow> int" where
  "next_rowid ids = fold max ids 0 + 1"

subsection \<open>Schemas (schemas.py)\<close>

record UserCreate =
  uc_email :: string
  uc_full_name :: string
  uc_password :: string

record TransactionCreate =
  tc_amount :: real
  tc_category :: string
  tc_description :: "string option"
  tc_transaction_type :: string
  tc_date :: datetime

text \<open>A field of \<^verbatim>\<open>TransactionUpdate\<close> has three states: not sent (\<open>None\<close>), sent as
  null (\<open>Some None\<close>), sent with a value (\<open>Some (Some v)\<close>).
  \<^verbatim>\<open>model_dump(exclude_unset=True)\<close> keeps exactly the fields that were sent.\<close>

record TransactionUpdate =
  upd_amount :: "real option option"
  upd_category :: "string option option"
  upd_description :: "string option option"
  upd_transaction_type :: "string option option"
  upd_date :: "datetime option option"

record Token =
  access_token :: string
  token_type :: string

record DashboardStats =
  total_income :: real
  total_expenses :: real
  balance :: real
  transaction_count :: nat

record CategoryBreakdown =
  cb_category :: string
  cb_total :: real
  cb_percentage :: real

record MonthlyData =
  month :: string
  income :: real
  expenses :: real

subsection \<open>Python and SQL primitives\<close>

text \<open>\<^verbatim>\<open>sum(iterable)\<close>: starts from 0 and adds from left to right.\<close>

definition py_sum :: "real list \<Rightarrow> real" where
  "py_sum xs = foldl (+) 0 xs"

text \<open>\<^verbatim>\<open>a / b\<close>: a zero divisor raises ZeroDivisionError.\<close>

definition py_truediv :: "real \<Rightarrow> real \<Rightarrow> py_error + real" where
  "py_truediv a b = (if b = 0 then Inl ZeroDivisionError else Inr (a / b))"

text \<open>\<^verbatim>\<open>[f(x) for x in xs]\<close> where \<^verbatim>\<open>f\<close> can raise: the elements are computed from
  left to right, and the first exception ends the comprehension.\<close>

fun comprehension :: "('a \<Rightarrow> py_error + 'b) \<Rightarrow> 'a list \<Rightarrow> py_error + 'b list" where
  "comprehension f [] = Inr []"
| "comprehension f (x # xs) =
     (case f x of
        Inl e \<Rightarrow> Inl e
      | Inr y \<Rightarrow> (case comprehension f xs of Inl e \<Rightarrow> Inl e | Inr ys \<Rightarrow> Inr (y # ys)))"

text \<open>\<^verbatim>\<open>round(x, ndigits)\<close> on exact values: to the nearest multiple of
  \<open>10 ^ -ndigits\<close>, a tie to the even one.\<close>

definition round_half_even :: "real \<Rightarrow> int" where
  "round_half_even x =
     (let f = \<lfloor>x\<rfloor>; d = x - of_int f
      in if d < 1 / 2 then f
         else if d > 1 / 2 then f + 1
         else if even f then f else f + 1)"

definition py_round :: "real \<Rightarrow> nat \<Rightarrow> real" where
  "py_round x ndigits = of_int (round_half_even (x * 10 ^ ndigits)) / 10 ^ ndigits"

text \<open>Truth value of an \<^verbatim>\<open>Optional[str]\<close> in \<^verbatim>\<open>if x:\<close>: None and the empty string
  are false. A \<^verbatim>\<open>datetime\<close> is always true, so \<^verbatim>\<open>if start_date:\<close> is a test for
  None, written as a case distinction where it occurs.\<close>

definition truthy_str :: "string option \<Rightarrow> bool" where
  "truthy_str x = (case x of None \<Rightarrow> False | Some s \<Rightarrow> s \<noteq> [])"

text \<open>SQL comparisons of a nullable column with a value: not true on NULL.\<close>

definition sql_ge :: "datetime option \<Rightarrow> datetime \<Rightarrow> bool" where
  "sql_ge col v = (case col of None \<Rightarrow> False | Some c \<Rightarrow> c \<ge> v)"

definition sql_le :: "datetime option \<Rightarrow> datetime \<Rightarrow> bool" where
  "sql_le col v = (case col of None \<Rightarrow> False | Some c \<Rightarrow> c \<le> v)"

text \<open>\<^verbatim>\<open>ORDER BY col DESC\<close>: descending, NULL (the least value, \<open>None\<close>) last; rows with
  equal keys stay in storage order.\<close>

definition order_by_desc :: "('a \<Rightarrow> 'k::linorder) \<Rightarrow> 'a list \<Rightarrow> 'a list" where
  "order_by_desc f rows = rev (sort_key f (rev rows))"

definition sql_offset :: "int \<Rightarrow> 'a list \<Rightarrow> 'a list" where
  "sql_offset n rows = (if n < 0 then rows else drop (nat n) rows)"

definition sql_limit :: "int \<Rightarrow> 'a list \<Rightarrow> 'a list" where
  "sql_limit n rows = (if n < 0 then rows else take (nat n) rows)"

text \<open>\<^verbatim>\<open>.first()\<close>: the first matching row, None when there is none.\<close>

definition first :: "('a \<Rightarrow> bool) \<Rightarrow> 'a list \<Rightarrow> 'a option" where
  "first p rows = find p rows"

text \<open>\<^verbatim>\<open>SELECT category, sum(amount) ... GROUP BY category\<close>: one row per category that
  occurs, with the sum of the amounts of its rows. SQL leaves the order of the
  groups open; the model lists each category at its last occurrence.\<close>

definition group_by_category_sum :: "transaction list \<Rightarrow> (string \<times> real) list" where
  "group_by_category_sum rows =
     map (\<lambda>c. (c, sum_list (map amount (filter (\<lambda>t. category t = c) rows))))
       (remdups (map category rows))"

subsection \<open>Users (crud.py)\<close>

definition get_user_by_email :: "db \<Rightarrow> string \<Rightarrow> user option" where
  "get_user_by_email d em = first (\<lambda>u. email u = em) (users d)"

text \<open>A function that writes returns the database after the call next to its
  result; after an exception the database is the one before the call (the session
  is closed without a commit).

  \<^verbatim>\<open>get_password_hash\<close> and \<^verbatim>\<open>verify_password\<close> come from the module
  \<^verbatim>\<open>auth.py\<close>; they are parameters here. The insert fails with IntegrityError when
  the email, a UNIQUE column, is already in the table.\<close>

definition create_user ::
  "(string \<Rightarrow> string) \<Rightarrow> datetime \<Rightarrow> db \<Rightarrow> UserCreate \<Rightarrow> db \<times> (py_error + user)" where
  "create_user get_password_hash now d usr =
     (let hashed = get_password_hash (uc_password usr);
          db_user = \<lparr>id_user = next_rowid (map id_user (users d)),
                     email = uc_email usr,
                     hashed_password = hashed,
                     full_name = uc_full_name usr,
                     is_active = True,
                     created_at_user = now\<rparr>
      in if email db_user \<in> set (map email (users d)) then (d, Inl IntegrityError)
         else (d\<lparr>users := users d @ [db_user]\<rparr>, Inr db_user))"

definition authenticate_user ::
  "(string \<Rightarrow> string \<Rightarrow> bool) \<Rightarrow> db \<Rightarrow> string \<Rightarrow> string \<Rightarrow> user option" where
  "authenticate_user verify_password d em password =
     (case get_user_by_email d em of
        None \<Rightarrow> None
      | Some usr \<Rightarrow>
          if \<not> verify_password password (hashed_password usr) then None else Some usr)"

subsection \<open>Transaction repository (crud.py)\<close>

definition create_transaction ::
  "datetime \<Rightarrow> db \<Rightarrow> TransactionCreate \<Rightarrow> int \<Rightarrow> db \<times> transaction" where
  "create_transaction now d tc uid =
     (let db_transaction = \<lparr>id_tx = next_rowid (map id_tx (transactions d)),
                            amount = tc_amount tc,
                            category = tc_category tc,
                            description = tc_description tc,
                            transaction_type = tc_transaction_type tc,
                            date = Some (tc_date tc),
                            created_at = now,
                            user_id = uid\<rparr>
      in (d\<lparr>transactions := transactions d @ [db_transaction]\<rparr>, db_transaction))"

definition get_transactions ::
  "db \<Rightarrow> int \<Rightarrow> int \<Rightarrow> int \<Rightarrow> string option \<Rightarrow> string option
     \<Rightarrow> datetime option \<Rightarrow> datetime option \<Rightarrow> transaction list" where
  "get_transactions d uid skip limit cat ttype start_date end_date =
     (let query = filter (\<lambda>t. user_id t = uid) (transactions d);
          query = (if truthy_str cat
                   then filter (\<lambda>t. Some (category t) = cat) query else query);
          query = (if truthy_str ttype
                   then filter (\<lambda>t. Some (transaction_type t) = ttype) query else query);
          query = (case start_date of
                     Some s \<Rightarrow> filter (\<lambda>t. sql_ge (date t) s) query
                   | None \<Rightarrow> query);
          query = (case end_date of
                     Some e \<Rightarrow> filter (\<lambda>t. sql_le (date t) e) query
                   | None \<Rightarrow> query)
      in sql_limit limit (sql_offset skip (order_by_desc date query)))"

definition get_transaction :: "db \<Rightarrow> int \<Rightarrow> int \<Rightarrow> transaction option" where
  "get_transaction d transaction_id uid =
     first (\<lambda>t. id_tx t = transaction_id \<and> user_id t = uid) (transactions d)"

text \<open>The loop \<^verbatim>\<open>for field, value in update_data.items(): setattr(...)\<close> over the
  fields that were sent. The commit refuses a NULL in a NOT NULL column.\<close>

definition not_null_ok :: "TransactionUpdate \<Rightarrow> bool" where
  "not_null_ok upd =
     (upd_amount upd \<noteq> Some None \<and> upd_category upd \<noteq> Some None
        \<and> upd_transaction_type upd \<noteq> Some None)"

definition setattrs :: "TransactionUpdate \<Rightarrow> transaction \<Rightarrow> transaction" where
  "setattrs upd t =
     t\<lparr>amount := (case upd_amount upd of Some (Some v) \<Rightarrow> v | _ \<Rightarrow> amount t),
       category := (case upd_category upd of Some (Some v) \<Rightarrow> v | _ \<Rightarrow> category t),
       description := (case upd_description upd of Some v \<Rightarrow> v | None \<Rightarrow> description t),
       transaction_type :=
         (case upd_transaction_type upd of Some (Some v) \<Rightarrow> v | _ \<Rightarrow> transaction_type t),
       date := (case upd_date upd of Some v \<Rightarrow> v | None \<Rightarrow> date t)\<rparr>"

definition update_transaction ::
  "db \<Rightarrow> int \<Rightarrow> TransactionUpdate \<Rightarrow> int \<Rightarrow> db \<times> (py_error + transaction option)" where
  "update_transaction d transaction_id transaction_update uid =
     (case get_transaction d transaction_id uid of
        None \<Rightarrow> (d, Inr None)
      | Some db_transaction \<Rightarrow>
          if \<not> not_null_ok transaction_update then (d, Inl IntegrityError)
          else
            let updated = setattrs transaction_update db_transaction
            in (d\<lparr>transactions :=
                    map (\<lambda>r. if id_tx r = id_tx db_transaction then updated else r)
                      (transactions d)\<rparr>,
                Inr (Some updated)))"

definition delete_transaction :: "db \<Rightarrow> int \<Rightarrow> int \<Rightarrow> db \<times> transaction option" where
  "delete_transaction d transaction_id uid =
     (case get_transaction d transaction_id uid of
        None \<Rightarrow> (d, None)
      | Some db_transaction \<Rightarrow>
          (d\<lparr>transactions :=
               filter (\<lambda>r. id_tx r \<noteq> id_tx db_transaction) (transactions d)\<rparr>,
           Some db_transaction))"

subsection \<open>Aggregation (crud.py)\<close>

definition get_dashboard_stats :: "db \<Rightarrow> int \<Rightarrow> DashboardStats" where
  "get_dashboard_stats d uid =
     (let txs = filter (\<lambda>t. user_id t = uid) (transactions d);
          total_income =
            py_sum (map amount (filter (\<lambda>t. transaction_type t = ''income'') txs));
          total_expenses =
            py_sum (map amount (filter (\<lambda>t. transaction_type t = ''expense'') txs))
      in \<lparr>total_income = total_income,
          total_expenses = total_expenses,
          balance = total_income - total_expenses,
          transaction_count = length txs\<rparr>)"

definition get_category_breakdown ::
  "db \<Rightarrow> int \<Rightarrow> string \<Rightarrow> py_error + CategoryBreakdown list" where
  "get_category_breakdown d uid ttype =
     (let results = group_by_category_sum
            (filter (\<lambda>t. user_id t = uid \<and> transaction_type t = ttype) (transactions d));
          total = py_sum (map snd results)
      in comprehension
           (\<lambda>r. if total > 0
                then (case py_truediv (snd r) total of
                        Inl e \<Rightarrow> Inl e
                      | Inr q \<Rightarrow> Inr \<lparr>cb_category = fst r,
                                      cb_total = snd r,
                                      cb_percentage = py_round (q * 100) 2\<rparr>)
                else Inr \<lparr>cb_category = fst r, cb_total = snd r, cb_percentage = 0\<rparr>)
           results)"

text \<open>The rows of the window query, each with its date: the two comparisons are not
  true on a NULL date, so every row that comes back has one.\<close>

definition window_rows ::
  "db \<Rightarrow> int \<Rightarrow> datetime \<Rightarrow> datetime \<Rightarrow> (datetime \<times> transaction) list" where
  "window_rows d uid start_date end_date =
     List.map_filter
       (\<lambda>t. case date t of
               None \<Rightarrow> None
             | Some dt \<Rightarrow>
                 if user_id t = uid \<and> dt \<ge> start_date \<and> dt \<le> end_date
                 then Some (dt, t) else None)
       (transactions d)"

text \<open>One turn of the loop over the rows; \<open>monthly_data\<close> is the dict, in insertion
  order, of month key to (income, expenses).\<close>

definition monthly_step ::
  "datetime \<times> transaction \<Rightarrow> (string \<times> real \<times> real) list \<Rightarrow> (string \<times> real \<times> real) list"
  where
  "monthly_step row monthly_data =
     (let month_key = strftime_Y_m (fst row);
          t = snd row;
          monthly_data =
            (if map_of monthly_data month_key = None
             then AList.update month_key (0, 0) monthly_data else monthly_data)
      in if transaction_type t = ''income''
         then AList.map_entry month_key (\<lambda>(i, e). (i + amount t, e)) monthly_data
         else AList.map_entry month_key (\<lambda>(i, e). (i, e + amount t)) monthly_data)"

text \<open>\<open>now\<close> is the value of \<^verbatim>\<open>datetime.utcnow()\<close>.\<close>

definition get_monthly_summary ::
  "datetime \<Rightarrow> db \<Rightarrow> int \<Rightarrow> int \<Rightarrow> py_error + MonthlyData list" where
  "get_monthly_summary now d uid months =
     (let end_date = now
      in case timedelta_days (30 * months) of
           Inl e \<Rightarrow> Inl e
         | Inr delta \<Rightarrow>
             (case datetime_sub end_date delta of
                Inl e \<Rightarrow> Inl e
              | Inr start_date \<Rightarrow>
                  let txs = window_rows d uid start_date end_date;
                      monthly_data = fold monthly_step txs []
                  in Inr (map (\<lambda>(m, i, e). \<lparr>month = m, income = i, expenses = e\<rparr>)
                            (sort_key fst monthly_data))))"

subsection \<open>Endpoints (main.py)\<close>

text \<open>Every endpoint below the two of \<^verbatim>\<open>/auth\<close> receives \<open>current_user\<close>, the user
  that \<^verbatim>\<open>get_current_user\<close> resolved from the bearer token. An exception that no
  handler catches is a 500. What the framework does with a returned value (the
  serialisation into the response model) is not part of the model.\<close>

definition signup ::
  "(string \<Rightarrow> string) \<Rightarrow> datetime \<Rightarrow> db \<Rightarrow> UserCreate \<Rightarrow> db \<times> (http_error + user)" where
  "signup get_password_hash now d usr =
     (case get_user_by_email d (uc_email usr) of
        Some db_user \<Rightarrow> (d, Inl (HTTPException 400 ''Email already registered''))
      | None \<Rightarrow>
          (case create_user get_password_hash now d usr of
             (d', Inl e) \<Rightarrow> (d', Inl (InternalServerError e))
           | (d', Inr db_user) \<Rightarrow> (d', Inr db_user)))"

text \<open>\<^verbatim>\<open>create_access_token\<close> is a function of \<^verbatim>\<open>auth.py\<close>, a parameter here, applied
  to the email of the user.\<close>

definition login ::
  "(string \<Rightarrow> string \<Rightarrow> bool) \<Rightarrow> (string \<Rightarrow> string) \<Rightarrow> db \<Rightarrow> string \<Rightarrow> string
     \<Rightarrow> http_error + Token" where
  "login verify_password create_access_token d username password =
     (case authenticate_user verify_password d username password of
        None \<Rightarrow> Inl (HTTPException 401 ''Incorrect email or password'')
      | Some usr \<Rightarrow>
          Inr \<lparr>access_token = create_access_token (email usr), token_type = ''bearer''\<rparr>)"

text \<open>Query parameters that the caller leaves out take the defaults of the signature:
  \<^verbatim>\<open>skip = 0\<close>, \<^verbatim>\<open>limit = 100\<close>.\<close>

definition read_transactions ::
  "db \<Rightarrow> user \<Rightarrow> int option \<Rightarrow> int option \<Rightarrow> string option \<Rightarrow> string option
     \<Rightarrow> datetime option \<Rightarrow> datetime option \<Rightarrow> transaction list" where
  "read_transactions d current_user skip limit cat ttype start_date end_date =
     get_transactions d (id_user current_user)
       (case skip of None \<Rightarrow> 0 | Some s \<Rightarrow> s)
       (case limit of None \<Rightarrow> 100 | Some l \<Rightarrow> l)
       cat ttype start_date end_date"

definition read_transaction :: "db \<Rightarrow> user \<Rightarrow> int \<Rightarrow> http_error + transaction" where
  "read_transaction d current_user transaction_id =
     (case get_transaction d transaction_id (id_user current_user) of
        None \<Rightarrow> Inl (HTTPException 404 ''Transaction not found'')
      | Some t \<Rightarrow> Inr t)"

definition update_transaction_api ::
  "db \<Rightarrow> user \<Rightarrow> int \<Rightarrow> TransactionUpdate \<Rightarrow> db \<times> (http_error + transaction)" where
  "update_transaction_api d current_user transaction_id upd =
     (case update_transaction d transaction_id upd (id_user current_user) of
        (d', Inl e) \<Rightarrow> (d', Inl (InternalServerError e))
      | (d', Inr None) \<Rightarrow> (d', Inl (HTTPException 404 ''Transaction not found''))
      | (d', Inr (Some t)) \<Rightarrow> (d', Inr t))"

definition delete_transaction_api :: "db \<Rightarrow> user \<Rightarrow> int \<Rightarrow> db \<times> (http_error + string)" where
  "delete_transaction_api d current_user transaction_id =
     (case delete_transaction d transaction_id (id_user current_user) of
        (d', None) \<Rightarrow> (d', Inl (HTTPException 404 ''Transaction not found''))
      | (d', Some t) \<Rightarrow> (d', Inr ''Transaction deleted successfully''))"

definition get_categories :: "db \<Rightarrow> user \<Rightarrow> string list" where
  "get_categories d current_user =
     filter (\<lambda>c. c \<noteq> [])
       (remdups (map category
          (filter (\<lambda>t. user_id t = id_user current_user) (transactions d))))"

subsection \<open>Auxiliary notions for the statements\<close>

text \<open>The database with only the rows of one owner in the transactions table.\<close>

definition own :: "db \<Rightarrow> int \<Rightarrow> db" where
  "own d a = d\<lparr>transactions := filter (\<lambda>r. user_id r = a) (transactions d)\<rparr>"








text \<open>The databases that the operations reach from the empty one.\<close>

inductive reachable :: "db \<Rightarrow> bool" where
  reachable_empty: "reachable \<lparr>users = [], transactions = []\<rparr>"
| reachable_signup: "reachable d \<Longrightarrow> reachable (fst (signup get_password_hash now d usr))"
| reachable_create: "reachable d \<Longrightarrow> reachable (fst (create_transaction now d tc uid))"
| reachable_update: "reachable d \<Longrightarrow> reachable (fst (update_transaction d tid upd uid))"
| reachable_delete: "reachable d \<Longrightarrow> reachable (fst (delete_transaction d tid uid))"

subsection \<open>A concrete database\<close>

text \<open>Two users; the first owns the three transactions of the scenario of the
  specification, the second owns one.\<close>

definition alice :: user where
  "alice = \<lparr>id_user = 1, email = ''alice@example.com'', hashed_password = ''hash-a'',
     full_name = ''Alice'', is_active = True, created_at_user = mk_datetime 2024 1 1 0 0 0\<rparr>"

definition bob :: user where
  "bob = \<lparr>id_user = 2, email = ''bob@example.com'', hashed_password = ''hash-b'',
     full_name = ''Bob'', is_active = True, created_at_user = mk_datetime 2024 1 2 0 0 0\<rparr>"

definition tx_salary :: transaction where
  "tx_salary = \<lparr>id_tx = 1, amount = 100, category = ''salary'', description = None,
     transaction_type = ''income'', date = Some (mk_datetime 2024 1 15 0 0 0),
     created_at = mk_datetime 2024 2 2 0 0 0, user_id = 1\<rparr>"

definition tx_food_jan :: transaction where
  "tx_food_jan = \<lparr>id_tx = 2, amount = 40, category = ''food'', description = None,
     transaction_type = ''expense'', date = Some (mk_datetime 2024 1 20 0 0 0),
     created_at = mk_datetime 2024 2 2 0 0 0, user_id = 1\<rparr>"

definition tx_food_feb :: transaction where
  "tx_food_feb = \<lparr>id_tx = 3, amount = 60, category = ''food'', description = None,
     transaction_type = ''expense'', date = Some (mk_datetime 2024 2 1 0 0 0),
     created_at = mk_datetime 2024 2 2 0 0 0, user_id = 1\<rparr>"

definition tx_bob :: transaction where
  "tx_bob = \<lparr>id_tx = 4, amount = 25, category = ''books'', description = Some ''novel'',
     transaction_type = ''expense'', date = Some (mk_datetime 2024 1 25 0 0 0),
     created_at = mk_datetime 2024 2 2 0 0 0, user_id = 2\<rparr>"

definition scenario_db :: db where
  "scenario_db = \<lparr>users = [alice, bob],
     transactions = [tx_salary, tx_food_jan, tx_food_feb, tx_bob]\<rparr>"

definition no_update :: TransactionUpdate where
  "no_update = \<lparr>upd_amount = None, upd_category = None, upd_description = None,
     upd_transaction_type = None, upd_date = None\<rparr>"



text \<open>Two updates that send one field, the amount: as 45 and as null.\<close>

definition amount_45 :: TransactionUpdate where
  "amount_45 = \<lparr>upd_amount = Some (Some 45), upd_category = None, upd_description = None,
     upd_transaction_type = None, upd_date = None\<rparr>"

definition amount_null :: TransactionUpdate where
  "amount_null = \<lparr>upd_amount = Some None, upd_category = None, upd_description = None,
     upd_transaction_type = None, upd_date = None\<rparr>"


text \<open>A signup request for an email that is not in the concrete database, and a
  credential scheme to run it with: the hash is the password behind a prefix, and
  a password verifies against a hash when hashing it gives that hash.\<close>

definition new_user :: UserCreate where
  "new_user = \<lparr>uc_email = ''carol@example.com'', uc_full_name = ''Carol'',
     uc_password = ''s3cret''\<rparr>"

definition demo_hash :: "string \<Rightarrow> string" where
  "demo_hash p = ''hash:'' @ p"

definition demo_verify :: "string \<Rightarrow> string \<Rightarrow> bool" where
  "demo_verify q h = (h = demo_hash q)"

definition demo_token :: "string \<Rightarrow> string" where
  "demo_token e = ''token:'' @ e"



section \<open>Properties\<close>

subsection \<open>Primary keys\<close>

text \<open>The ids of the two tables and the emails of the users are pairwise distinct in
  every database that signups, creations, updates and deletions reach from the
  empty one: a new row gets an id above all ids of its table, an update keeps the
  id, and a signup is refused for an email that is taken.\<close>

lemma fold_max_ge:
  fixes a :: int
  shows "a \<le> fold max ids a \<and> (\<forall>x \<in> set ids. x \<le> fold max ids a)"
proof (induction ids arbitrary: a)
  case Nil
  then show ?case by simp
next
  case (Cons y ids)
  from Cons.IH[of "max y a"] show ?case by auto
qed

lemma next_rowid_fresh: "next_rowid ids \<notin> set ids"
  using fold_max_ge[of 0 ids] by (fastforce simp: next_rowid_def)

lemma create_transaction_keeps_key:
  assumes "distinct (map id_tx (transactions d))"
  shows "distinct (map id_tx (transactions (fst (create_transaction now d tc uid))))"
  using assms next_rowid_fresh[of "map id_tx (transactions d)"]
  by (simp add: create_transaction_def Let_def)

lemma update_transaction_keeps_key:
  assumes "distinct (map id_tx (transactions d))"
  shows "distinct (map id_tx (transactions (fst (update_transaction d tid upd uid))))"
proof -
  have "(id_tx \<circ> (\<lambda>r. if id_tx r = id_tx t then setattrs upd t else r)) = id_tx" for t
    by (auto simp: fun_eq_iff setattrs_def)
  with assms show ?thesis
    by (simp add: update_transaction_def Let_def split: option.splits)
qed

lemma delete_transaction_keeps_key:
  assumes "distinct (map id_tx (transactions d))"
  shows "distinct (map id_tx (transactions (fst (delete_transaction d tid uid))))"
  using assms by (simp add: delete_transaction_def distinct_map_filter split: option.splits)

lemma signup_keeps_keys:
  assumes "distinct (map id_user (users d))" "distinct (map email (users d))"
  shows "distinct (map id_user (users (fst (signup get_password_hash now d usr))))
    \<and> distinct (map email (users (fst (signup get_password_hash now d usr))))
    \<and> transactions (fst (signup get_password_hash now d usr)) = transactions d"
  using assms next_rowid_fresh[of "map id_user (users d)"]
  by (auto simp: signup_def create_user_def Let_def split: option.splits)

lemma reachable_keys:
  "reachable d \<Longrightarrow>
     distinct (map id_tx (transactions d)) \<and> distinct (map id_user (users d))
       \<and> distinct (map email (users d))"
proof (induction rule: reachable.induct)
  case reachable_empty
  then show ?case by simp
next
  case (reachable_signup d get_password_hash now usr)
  then show ?case using signup_keeps_keys by simp
next
  case (reachable_create d now tc uid)
  then show ?case
    using create_transaction_keeps_key by (simp add: create_transaction_def Let_def)
next
  case (reachable_update d tid upd uid)
  then show ?case
    using update_transaction_keeps_key
    by (simp add: update_transaction_def Let_def split: option.splits)
next
  case (reachable_delete d tid uid)
  then show ?case
    using delete_transaction_keeps_key
    by (simp add: delete_transaction_def split: option.splits)
qed

subsection \<open>Lookup by id and owner\<close>

lemma get_transaction_None_iff:
  "get_transaction d i a = None \<longleftrightarrow> (\<forall>r \<in> set (transactions d). \<not> (id_tx r = i \<and> user_id r = a))"
  by (auto simp add: get_transaction_def first_def find_None_iff)

lemma get_transaction_SomeD:
  "get_transaction d i a = Some r \<Longrightarrow> r \<in> set (transactions d) \<and> id_tx r = i \<and> user_id r = a"
  by (auto simp: get_transaction_def first_def find_Some_iff)

lemma primary_key_unique:
  "distinct (map id_tx rows) \<Longrightarrow> r \<in> set rows \<Longrightarrow> t \<in> set rows \<Longrightarrow> id_tx r = id_tx t \<Longrightarrow> r = t"
  by (meson distinct_map inj_onD)

lemma not_owner_absent:
  assumes "distinct (map id_tx (transactions d))" "t \<in> set (transactions d)" "user_id t \<noteq> a"
  shows "get_transaction d (id_tx t) a = None"
  unfolding get_transaction_None_iff
  using assms primary_key_unique by blast

lemma set_get_transactions:
  "r \<in> set (get_transactions d a skip limit cat ty sd ed) \<Longrightarrow> r \<in> set (transactions d) \<and> user_id r = a"
  by (auto simp: get_transactions_def Let_def sql_limit_def sql_offset_def order_by_desc_def 
      split: if_splits option.splits dest!: in_set_takeD in_set_dropD)

lemma filter_own_removeAll:
  "user_id t \<noteq> a \<Longrightarrow> filter (\<lambda>r. user_id r = a) (removeAll t rows) = filter (\<lambda>r. user_id r = a) rows"
  by (induction rows) auto

lemma get_transactions_own: "get_transactions (own d a) a = get_transactions d a"
  by (simp add: own_def get_transactions_def fun_eq_iff)

lemma get_dashboard_stats_own: "get_dashboard_stats (own d a) a = get_dashboard_stats d a"
  by (simp add: own_def get_dashboard_stats_def)

lemma filter_conj_own:
  "filter (\<lambda>t. user_id t = a \<and> P t) (filter (\<lambda>r. user_id r = a) rows) = filter (\<lambda>t. user_id t = a \<and> P t) rows"
  by (induction rows) auto

lemma get_category_breakdown_own: "get_category_breakdown (own d a) a = get_category_breakdown d a"
  by (simp add: own_def get_category_breakdown_def fun_eq_iff filter_conj_own)

lemma window_rows_own: "window_rows (own d a) a s e = window_rows d a s e"
proof -
  have "List.map_filter f (filter (\<lambda>r. user_id r = a) rows) = List.map_filter f rows"
    if "\<And>r. user_id r \<noteq> a \<Longrightarrow> f r = None" for f :: "transaction \<Rightarrow> (datetime \<times> transaction) option" and rows
    using that by (induction rows) (auto simp: List.map_filter_simps split: option.splits)
  then show ?thesis
    by (simp add: own_def window_rows_def split: option.splits)
qed

lemma get_monthly_summary_own: "get_monthly_summary now (own d a) a = get_monthly_summary now d a"
  by (simp add: get_monthly_summary_def fun_eq_iff window_rows_own split: sum.splits)

lemma get_categories_own: "get_categories (own d (id_user A)) A = get_categories d A"
  by (simp add: own_def get_categories_def)

lemma own_removeAll:
  "user_id t \<noteq> a \<Longrightarrow> own (d\<lparr>transactions := removeAll t (transactions d)\<rparr>) a = own d a"
  by (simp add: own_def filter_own_removeAll)

lemma update_transaction_keeps_others:
  assumes pk: "distinct (map id_tx (transactions d))"
    and t: "t \<in> set (transactions d)" "user_id t \<noteq> a"
  shows "t \<in> set (transactions (fst (update_transaction d i u a)))"
proof (cases "get_transaction d i a")
  case None
  with t show ?thesis by (simp add: update_transaction_def)
next
  case (Some row)
  then have row: "row \<in> set (transactions d)" "user_id row = a"
    using get_transaction_SomeD by blast+
  with t pk have "id_tx t \<noteq> id_tx row"
    using primary_key_unique by blast
  then show ?thesis
    using t(1) Some by (auto simp: update_transaction_def Let_def image_iff intro!: bexI[of _ t])
qed

lemma delete_transaction_keeps_others:
  assumes pk: "distinct (map id_tx (transactions d))"
    and t: "t \<in> set (transactions d)" "user_id t \<noteq> a"
  shows "t \<in> set (transactions (fst (delete_transaction d i a)))"
proof (cases "get_transaction d i a")
  case None
  with t show ?thesis by (simp add: delete_transaction_def)
next
  case (Some row)
  then have row: "row \<in> set (transactions d)" "user_id row = a"
    using get_transaction_SomeD by blast+
  with t pk have "id_tx t \<noteq> id_tx row"
    using primary_key_unique by blast
  with Some t(1) show ?thesis
    by (simp add: delete_transaction_def)
qed

subsection \<open>C1: a transaction belongs to its owner alone\<close>

text \<open>
  C1. Let the ids of the table be pairwise distinct (\<^verbatim>\<open>id\<close> is the primary key;
  they are distinct in every reachable database), let \<open>t\<close> be a row owned by \<open>b\<close> and
  \<open>A\<close> a user with another id. Then looking \<open>t\<close> up,
  updating it and deleting it on behalf of \<open>A\<close> all find nothing and leave the
  database as it is, and each of the three endpoints answers 404. No listing for
  \<open>A\<close> contains \<open>t\<close>; the statistics, the category breakdown, the monthly summary and
  the category list of \<open>A\<close> are what they are without \<open>t\<close> in the table; and whatever
  id \<open>A\<close> updates or deletes, \<open>t\<close> is in the table afterwards, unchanged.
\<close>

theorem transaction_isolation:
  assumes pk: "distinct (map id_tx (transactions d))"
    and t: "t \<in> set (transactions d)"
    and owner: "user_id t = b"
    and other: "id_user A \<noteq> b"
  shows "get_transaction d (id_tx t) (id_user A) = None
    \<and> read_transaction d A (id_tx t) = Inl (HTTPException 404 ''Transaction not found'')
    \<and> update_transaction d (id_tx t) upd (id_user A) = (d, Inr None)
    \<and> update_transaction_api d A (id_tx t) upd
        = (d, Inl (HTTPException 404 ''Transaction not found''))
    \<and> delete_transaction d (id_tx t) (id_user A) = (d, None)
    \<and> delete_transaction_api d A (id_tx t)
        = (d, Inl (HTTPException 404 ''Transaction not found''))
    \<and> t \<notin> set (get_transactions d (id_user A) skip limit cat ttype sd ed)
    \<and> t \<notin> set (read_transactions d A skip' limit' cat ttype sd ed)
    \<and> get_dashboard_stats d (id_user A)
        = get_dashboard_stats (d\<lparr>transactions := removeAll t (transactions d)\<rparr>) (id_user A)
    \<and> get_category_breakdown d (id_user A) ttype'
        = get_category_breakdown (d\<lparr>transactions := removeAll t (transactions d)\<rparr>) (id_user A) ttype'
    \<and> get_monthly_summary now d (id_user A) months
        = get_monthly_summary now (d\<lparr>transactions := removeAll t (transactions d)\<rparr>) (id_user A) months
    \<and> get_categories d A
        = get_categories (d\<lparr>transactions := removeAll t (transactions d)\<rparr>) A
    \<and> (\<forall>i u. t \<in> set (transactions (fst (update_transaction d i u (id_user A)))))
    \<and> (\<forall>i. t \<in> set (transactions (fst (delete_transaction d i (id_user A)))))"
proof -
  let ?a = "id_user A"
  let ?d' = "d\<lparr>transactions := removeAll t (transactions d)\<rparr>"
  from owner other have ne: "user_id t \<noteq> ?a" by simp
  have absent: "get_transaction d (id_tx t) ?a = None"
    using not_owner_absent[OF pk t ne] .
  have own: "own ?d' ?a = own d ?a"
    using own_removeAll[OF ne] .
  have c1: "read_transaction d A (id_tx t) = Inl (HTTPException 404 ''Transaction not found'')"
    by (simp add: read_transaction_def absent)
  have c2: "update_transaction d (id_tx t) upd ?a = (d, Inr None)"
    by (simp add: update_transaction_def absent)
  have c3: "update_transaction_api d A (id_tx t) upd
      = (d, Inl (HTTPException 404 ''Transaction not found''))"
    by (simp add: update_transaction_api_def c2)
  have c4: "delete_transaction d (id_tx t) ?a = (d, None)"
    by (simp add: delete_transaction_def absent)
  have c5: "delete_transaction_api d A (id_tx t)
      = (d, Inl (HTTPException 404 ''Transaction not found''))"
    by (simp add: delete_transaction_api_def c4)
  have c6: "t \<notin> set (get_transactions d ?a skip limit cat ttype sd ed)" for skip limit
    using set_get_transactions ne by blast
  have c7: "t \<notin> set (read_transactions d A skip' limit' cat ttype sd ed)"
    unfolding read_transactions_def by (rule c6)
  have c8: "get_dashboard_stats d ?a = get_dashboard_stats ?d' ?a"
    using get_dashboard_stats_own[of d ?a] get_dashboard_stats_own[of ?d' ?a] own by simp
  have c9: "get_category_breakdown d ?a ttype' = get_category_breakdown ?d' ?a ttype'"
    using get_category_breakdown_own[of d ?a] get_category_breakdown_own[of ?d' ?a] own by simp
  have c10: "get_monthly_summary now d ?a months = get_monthly_summary now ?d' ?a months"
    using get_monthly_summary_own[of now d ?a] get_monthly_summary_own[of now ?d' ?a] own by simp
  have c11: "get_categories d A = get_categories ?d' A"
    using get_categories_own[of d A] get_categories_own[of ?d' A] own by simp
  have c12: "\<forall>i u. t \<in> set (transactions (fst (update_transaction d i u ?a)))"
    using update_transaction_keeps_others[OF pk t ne] by blast
  have c13: "\<forall>i. t \<in> set (transactions (fst (delete_transaction d i ?a)))"
    using delete_transaction_keeps_others[OF pk t ne] by blast
  show ?thesis
    using absent c1 c2 c3 c4 c5 c6 c7 c8 c9 c10 c11 c12 c13 by blast
qed

text \<open>The hypotheses of C1 hold for the second user's row and the first user of
  the concrete database.\<close>

lemma scenario_pk: "distinct (map id_tx (transactions scenario_db))"
  by (simp add: scenario_db_def tx_salary_def tx_food_jan_def tx_food_feb_def tx_bob_def)

theorem transaction_isolation_witness:
  "distinct (map id_tx (transactions scenario_db))
   \<and> tx_bob \<in> set (transactions scenario_db) \<and> user_id tx_bob = 2 \<and> id_user alice \<noteq> 2
   \<and> get_transaction scenario_db 4 (id_user alice) = None
   \<and> read_transaction scenario_db alice 4 = Inl (HTTPException 404 ''Transaction not found'')
   \<and> update_transaction_api scenario_db alice 4 no_update
        = (scenario_db, Inl (HTTPException 404 ''Transaction not found''))
   \<and> delete_transaction_api scenario_db alice 4
        = (scenario_db, Inl (HTTPException 404 ''Transaction not found''))
   \<and> tx_bob \<notin> set (read_transactions scenario_db alice None None None None None None)"
proof -
  have h1: "distinct (map id_tx (transactions scenario_db))"
    by (rule scenario_pk)
  have h2: "tx_bob \<in> set (transactions scenario_db)"
    by (simp add: scenario_db_def)
  have h3: "user_id tx_bob = 2"
    by (simp add: tx_bob_def)
  have h4: "id_user alice \<noteq> 2"
    by (simp add: alice_def)
  have id4: "id_tx tx_bob = 4"
    by (simp add: tx_bob_def)
  show ?thesis
    using h1 h2 h3 h4
      transaction_isolation[OF h1 h2 h3 h4, of no_update 0 100 None None None None None None
        "''expense''" 0 6]
    unfolding id4 by blast
qed

subsection \<open>Sums and rounding\<close>










subsection \<open>Grouping by category\<close>














subsection \<open>Partial update\<close>

lemma setattrs_no_update: "setattrs no_update t = t"
  by (simp add: setattrs_def no_update_def)

lemma map_replace_same:
  assumes "distinct (map id_tx rows)" "t \<in> set rows"
  shows "map (\<lambda>r. if id_tx r = id_tx t then t else r) rows = rows"
proof -
  have "(if id_tx r = id_tx t then t else r) = r" if "r \<in> set rows" for r
    using that assms primary_key_unique by fastforce
  then show ?thesis by (simp add: map_idI)
qed

text \<open>
  C5 (amended). Let \<open>t\<close> be the row that the owner's lookup of \<open>tid\<close> finds. An update
  that sends null for none of \<^verbatim>\<open>amount\<close>, \<^verbatim>\<open>category\<close>, \<^verbatim>\<open>transaction_type\<close> returns
  the row in which every field that was sent has the value sent (a null description
  or date is stored as NULL) and every other field, the id, the creation time and
  the owner are as before; the table differs in that row alone. An update that
  sends null for one of the three fails with IntegrityError and changes nothing. The
  update that sends no field returns \<open>t\<close> itself, and leaves the database as it is
  when the ids of the table are pairwise distinct.
\<close>

theorem update_changes_sent_fields:
  assumes found: "get_transaction d tid uid = Some t"
  shows "(\<not> not_null_ok upd \<longrightarrow> update_transaction d tid upd uid = (d, Inl IntegrityError))
    \<and> (not_null_ok upd \<longrightarrow>
         (\<exists>t'. update_transaction d tid upd uid
                 = (d\<lparr>transactions := map (\<lambda>r. if id_tx r = tid then t' else r) (transactions d)\<rparr>,
                    Inr (Some t'))
           \<and> (case upd_amount upd of None \<Rightarrow> amount t' = amount t | Some v \<Rightarrow> Some (amount t') = v)
           \<and> (case upd_category upd of None \<Rightarrow> category t' = category t
               | Some v \<Rightarrow> Some (category t') = v)
           \<and> (case upd_description upd of None \<Rightarrow> description t' = description t
               | Some v \<Rightarrow> description t' = v)
           \<and> (case upd_transaction_type upd of None \<Rightarrow> transaction_type t' = transaction_type t
               | Some v \<Rightarrow> Some (transaction_type t') = v)
           \<and> (case upd_date upd of None \<Rightarrow> date t' = date t | Some v \<Rightarrow> date t' = v)
           \<and> id_tx t' = id_tx t \<and> created_at t' = created_at t \<and> user_id t' = user_id t))
    \<and> snd (update_transaction d tid no_update uid) = Inr (Some t)
    \<and> (distinct (map id_tx (transactions d)) \<longrightarrow>
         update_transaction d tid no_update uid = (d, Inr (Some t)))"
proof -
  from found have t: "t \<in> set (transactions d)" "id_tx t = tid"
    using get_transaction_SomeD by blast+
  have bad: "update_transaction d tid upd uid = (d, Inl IntegrityError)" if "\<not> not_null_ok upd"
    using that found by (simp add: update_transaction_def)
  have good: "update_transaction d tid upd uid
      = (d\<lparr>transactions := map (\<lambda>r. if id_tx r = tid then setattrs upd t else r) (transactions d)\<rparr>,
         Inr (Some (setattrs upd t)))" if "not_null_ok upd" for upd
    using that found t by (simp add: update_transaction_def Let_def)
  have fields: "(case upd_amount upd of None \<Rightarrow> amount (setattrs upd t) = amount t
                  | Some v \<Rightarrow> Some (amount (setattrs upd t)) = v)
      \<and> (case upd_category upd of None \<Rightarrow> category (setattrs upd t) = category t
          | Some v \<Rightarrow> Some (category (setattrs upd t)) = v)
      \<and> (case upd_description upd of None \<Rightarrow> description (setattrs upd t) = description t
          | Some v \<Rightarrow> description (setattrs upd t) = v)
      \<and> (case upd_transaction_type upd of
            None \<Rightarrow> transaction_type (setattrs upd t) = transaction_type t
          | Some v \<Rightarrow> Some (transaction_type (setattrs upd t)) = v)
      \<and> (case upd_date upd of None \<Rightarrow> date (setattrs upd t) = date t
          | Some v \<Rightarrow> date (setattrs upd t) = v)
      \<and> id_tx (setattrs upd t) = id_tx t \<and> created_at (setattrs upd t) = created_at t
      \<and> user_id (setattrs upd t) = user_id t" if "not_null_ok upd"
    using that by (auto simp: setattrs_def not_null_ok_def split: option.splits)
  have ok: "not_null_ok no_update"
    by (simp add: not_null_ok_def no_update_def)
  have e1: "snd (update_transaction d tid no_update uid) = Inr (Some t)"
    by (simp add: good[OF ok] setattrs_no_update)
  have e2: "update_transaction d tid no_update uid = (d, Inr (Some t))"
    if "distinct (map id_tx (transactions d))"
  proof -
    have "update_transaction d tid no_update uid
        = (d\<lparr>transactions := map (\<lambda>r. if id_tx r = id_tx t then t else r) (transactions d)\<rparr>,
           Inr (Some t))"
      using good[OF ok] unfolding setattrs_no_update t(2) .
    then show ?thesis
      by (simp add: map_replace_same[OF that t(1)])
  qed
  show ?thesis
    using bad good fields e1 e2 by blast
qed

text \<open>The hypothesis of C5 at the January food row of the first user: an update of the
  amount alone, and the empty update.\<close>

lemma scenario_get_food_jan: "get_transaction scenario_db 2 1 = Some tx_food_jan"
  by (simp add: get_transaction_def first_def scenario_db_def tx_salary_def tx_food_jan_def)

theorem update_changes_sent_fields_witness:
  "get_transaction scenario_db 2 1 = Some tx_food_jan \<and> not_null_ok amount_45
   \<and> distinct (map id_tx (transactions scenario_db))
   \<and> (\<exists>t'. snd (update_transaction scenario_db 2 amount_45 1) = Inr (Some t')
          \<and> amount t' = 45 \<and> category t' = ''food'' \<and> description t' = None
          \<and> transaction_type t' = ''expense'' \<and> date t' = Some (mk_datetime 2024 1 20 0 0 0)
          \<and> id_tx t' = 2 \<and> user_id t' = 1)
   \<and> update_transaction scenario_db 2 no_update 1 = (scenario_db, Inr (Some tx_food_jan))"
proof -
  have ok: "not_null_ok amount_45"
    by (simp add: not_null_ok_def amount_45_def)
  have sent: "upd_amount amount_45 = Some (Some 45)" "upd_category amount_45 = None"
    "upd_description amount_45 = None" "upd_transaction_type amount_45 = None"
    "upd_date amount_45 = None"
    by (simp_all add: amount_45_def)
  have old: "category tx_food_jan = ''food''" "description tx_food_jan = None"
    "transaction_type tx_food_jan = ''expense''"
    "date tx_food_jan = Some (mk_datetime 2024 1 20 0 0 0)" "id_tx tx_food_jan = 2"
    "user_id tx_food_jan = 1"
    by (simp_all add: tx_food_jan_def)
  note upd_thm = update_changes_sent_fields[OF scenario_get_food_jan]
  from upd_thm[of amount_45] ok obtain t' where
    "update_transaction scenario_db 2 amount_45 1
       = (scenario_db\<lparr>transactions := map (\<lambda>r. if id_tx r = 2 then t' else r)
            (transactions scenario_db)\<rparr>, Inr (Some t'))"
    "amount t' = 45" "category t' = ''food''" "description t' = None"
    "transaction_type t' = ''expense''" "date t' = Some (mk_datetime 2024 1 20 0 0 0)"
    "id_tx t' = 2" "user_id t' = 1"
    unfolding sent old by auto
  then have "\<exists>t'. snd (update_transaction scenario_db 2 amount_45 1) = Inr (Some t')
          \<and> amount t' = 45 \<and> category t' = ''food'' \<and> description t' = None
          \<and> transaction_type t' = ''expense'' \<and> date t' = Some (mk_datetime 2024 1 20 0 0 0)
          \<and> id_tx t' = 2 \<and> user_id t' = 1"
    by auto
  moreover from upd_thm[of amount_45] scenario_pk
  have "update_transaction scenario_db 2 no_update 1 = (scenario_db, Inr (Some tx_food_jan))"
    by blast
  ultimately show ?thesis
    using scenario_get_food_jan ok scenario_pk by blast
qed

text \<open>
  C5 as stated fails for an update that sends \<^verbatim>\<open>{"amount": null}\<close>: the field is
  present in the update, the owner's row is found, and the update neither changes the
  field nor returns the row; the commit raises IntegrityError and the endpoint
  answers 500.
\<close>

theorem update_null_amount_counterexample:
  "get_transaction scenario_db 2 1 = Some tx_food_jan
   \<and> upd_amount amount_null = Some None
   \<and> update_transaction scenario_db 2 amount_null 1 = (scenario_db, Inl IntegrityError)
   \<and> update_transaction_api scenario_db alice 2 amount_null
       = (scenario_db, Inl (InternalServerError IntegrityError))"
proof -
  have "update_transaction scenario_db 2 amount_null 1 = (scenario_db, Inl IntegrityError)"
    by (simp add: update_transaction_def scenario_get_food_jan not_null_ok_def amount_null_def)
  moreover have "id_user alice = 1"
    by (simp add: alice_def)
  ultimately show ?thesis
    by (simp add: scenario_get_food_jan update_transaction_api_def amount_null_def)
qed

subsection \<open>Listing\<close>








text \<open>The scenario of the specification: the filter \<^verbatim>\<open>category = "food"\<close> gives the two
  food rows, February before January.\<close>

lemma scenario_dates:
  "mk_datetime 2024 1 15 0 0 0 < mk_datetime 2024 1 20 0 0 0"
  "mk_datetime 2024 1 20 0 0 0 < mk_datetime 2024 2 1 0 0 0"
  by (simp_all add: mk_datetime_def ymd2ord_def days_before_year_def days_before_month_def
      DAYS_BEFORE_MONTH_def is_leap_def US_PER_DAY_def)



text \<open>A limit of -1 does not bound the listing.\<close>

lemma list_negative_limit:
  "get_transactions scenario_db 1 0 (- 1) None None None None
     = [tx_food_feb, tx_food_jan, tx_salary]"
  using scenario_dates
  by (simp add: get_transactions_def scenario_db_def truthy_str_def sql_limit_def sql_offset_def
      order_by_desc_def tx_salary_def tx_food_jan_def tx_food_feb_def tx_bob_def)


text \<open>
  C9. A category filter that is the empty string gives the listing of no category
  filter at all, and the same holds for the type filter, in the repository function
  and in the endpoint.
\<close>

theorem empty_filter_ignored:
  "get_transactions d uid skip limit (Some '''') ttype sd ed
     = get_transactions d uid skip limit None ttype sd ed
   \<and> get_transactions d uid skip limit cat (Some '''') sd ed
     = get_transactions d uid skip limit cat None sd ed
   \<and> read_transactions d A skip' limit' (Some '''') ttype sd ed
     = read_transactions d A skip' limit' None ttype sd ed
   \<and> read_transactions d A skip' limit' cat (Some '''') sd ed
     = read_transactions d A skip' limit' cat None sd ed"
  by (simp add: read_transactions_def get_transactions_def truthy_str_def)

text \<open>With the empty string as type filter the first user gets all three rows, none
  of which has the empty string as its type.\<close>

theorem empty_filter_ignored_witness:
  "get_transactions scenario_db 1 0 100 None (Some '''') None None
     = [tx_food_feb, tx_food_jan, tx_salary]
   \<and> transaction_type tx_food_feb \<noteq> '''' \<and> transaction_type tx_salary \<noteq> ''''"
proof -
  have "get_transactions scenario_db 1 0 100 None None None None
     = [tx_food_feb, tx_food_jan, tx_salary]"
    using scenario_dates
    by (simp add: get_transactions_def scenario_db_def truthy_str_def sql_limit_def sql_offset_def
        order_by_desc_def tx_salary_def tx_food_jan_def tx_food_feb_def tx_bob_def)
  with empty_filter_ignored[of scenario_db 1 0 100 None None None]
  show ?thesis
    by (simp add: tx_food_feb_def tx_salary_def)
qed

subsection \<open>Monthly summary\<close>


















text \<open>A window of 100000 months would start before year 1: the subtraction raises.\<close>

lemma monthly_summary_overflow:
  "get_monthly_summary (mk_datetime 2024 2 2 0 0 0) scenario_db 1 100000 = Inl OverflowError"
  by (simp add: get_monthly_summary_def timedelta_days_def datetime_sub_def Let_def
      mk_datetime_def ymd2ord_def days_before_year_def days_before_month_def
      DAYS_BEFORE_MONTH_def is_leap_def US_PER_DAY_def)


subsection \<open>Signup and login\<close>

lemma get_user_by_email_None_iff:
  "get_user_by_email d em = None \<longleftrightarrow> em \<notin> email ` set (users d)"
  by (auto simp: get_user_by_email_def first_def find_None_iff)

lemma get_user_by_email_append:
  "get_user_by_email d em = None \<Longrightarrow> email u = em \<Longrightarrow>
     get_user_by_email (d\<lparr>users := users d @ [u]\<rparr>) em = Some u"
proof -
  have "find P (xs @ [x]) = Some x" if "find P xs = None" "P x" for P and xs :: "user list" and x
    using that by (induction xs) (auto split: if_splits)
  then show "get_user_by_email d em = None \<Longrightarrow> email u = em \<Longrightarrow>
     get_user_by_email (d\<lparr>users := users d @ [u]\<rparr>) em = Some u"
    by (simp add: get_user_by_email_def first_def)
qed

text \<open>
  C8. Let the credential scheme accept a password against a hash exactly when the
  hash was made from that password. A signup whose email is the email of a user in
  the table is answered with 400 and leaves the database as it is. A signup whose
  email is not in the table returns the new user and adds it, and nothing else, to
  the table; after it, a login with that email and the password of the signup
  returns a bearer token, a login with any other password is answered with 401, and
  a further signup with the same email is answered with 400.
\<close>

theorem signup_then_login:
  assumes scheme: "\<And>p q. verify_password q (get_password_hash p) \<longleftrightarrow> q = p"
  shows "(uc_email usr \<in> email ` set (users d) \<longrightarrow>
            signup get_password_hash now d usr
              = (d, Inl (HTTPException 400 ''Email already registered'')))
    \<and> (uc_email usr \<notin> email ` set (users d) \<longrightarrow>
         (\<exists>d' u. signup get_password_hash now d usr = (d', Inr u)
            \<and> users d' = users d @ [u] \<and> transactions d' = transactions d
            \<and> email u = uc_email usr \<and> full_name u = uc_full_name usr
            \<and> hashed_password u = get_password_hash (uc_password usr)
            \<and> login verify_password create_access_token d' (uc_email usr) (uc_password usr)
                 = Inr \<lparr>access_token = create_access_token (uc_email usr),
                        token_type = ''bearer''\<rparr>
            \<and> (\<forall>wrong. wrong \<noteq> uc_password usr \<longrightarrow>
                  login verify_password create_access_token d' (uc_email usr) wrong
                    = Inl (HTTPException 401 ''Incorrect email or password''))
            \<and> (\<forall>again now'. uc_email again = uc_email usr \<longrightarrow>
                  signup get_password_hash now' d' again
                    = (d', Inl (HTTPException 400 ''Email already registered'')))))"
proof -
  have taken: "signup get_password_hash now d usr
      = (d, Inl (HTTPException 400 ''Email already registered''))"
    if "uc_email usr \<in> email ` set (users d)"
  proof -
    from that obtain u where "get_user_by_email d (uc_email usr) = Some u"
      using get_user_by_email_None_iff by fastforce
    then show ?thesis by (simp add: signup_def)
  qed
  have fresh: "\<exists>d' u. signup get_password_hash now d usr = (d', Inr u)
            \<and> users d' = users d @ [u] \<and> transactions d' = transactions d
            \<and> email u = uc_email usr \<and> full_name u = uc_full_name usr
            \<and> hashed_password u = get_password_hash (uc_password usr)
            \<and> login verify_password create_access_token d' (uc_email usr) (uc_password usr)
                 = Inr \<lparr>access_token = create_access_token (uc_email usr),
                        token_type = ''bearer''\<rparr>
            \<and> (\<forall>wrong. wrong \<noteq> uc_password usr \<longrightarrow>
                  login verify_password create_access_token d' (uc_email usr) wrong
                    = Inl (HTTPException 401 ''Incorrect email or password''))
            \<and> (\<forall>again now'. uc_email again = uc_email usr \<longrightarrow>
                  signup get_password_hash now' d' again
                    = (d', Inl (HTTPException 400 ''Email already registered'')))"
    if new: "uc_email usr \<notin> email ` set (users d)"
  proof -
    define u where "u = \<lparr>id_user = next_rowid (map id_user (users d)),
        email = uc_email usr, hashed_password = get_password_hash (uc_password usr),
        full_name = uc_full_name usr, is_active = True, created_at_user = now\<rparr>"
    define d' where "d' = d\<lparr>users := users d @ [u]\<rparr>"
    from new have none: "get_user_by_email d (uc_email usr) = None"
      by (simp add: get_user_by_email_None_iff)
    have created: "create_user get_password_hash now d usr = (d', Inr u)"
      using new by (simp add: create_user_def Let_def u_def d'_def)
    have su: "signup get_password_hash now d usr = (d', Inr u)"
      by (simp add: signup_def none created)
    have look: "get_user_by_email d' (uc_email usr) = Some u"
      unfolding d'_def by (rule get_user_by_email_append[OF none]) (simp add: u_def)
    have f: "email u = uc_email usr" "full_name u = uc_full_name usr"
      "hashed_password u = get_password_hash (uc_password usr)"
      by (simp_all add: u_def)
    have good: "login verify_password create_access_token d' (uc_email usr) (uc_password usr)
        = Inr \<lparr>access_token = create_access_token (uc_email usr), token_type = ''bearer''\<rparr>"
      by (simp add: login_def authenticate_user_def look f scheme)
    have bad: "login verify_password create_access_token d' (uc_email usr) wrong
        = Inl (HTTPException 401 ''Incorrect email or password'')"
      if "wrong \<noteq> uc_password usr" for wrong
      using that by (simp add: login_def authenticate_user_def look f scheme)
    have again: "signup get_password_hash now' d' again
        = (d', Inl (HTTPException 400 ''Email already registered''))"
      if "uc_email again = uc_email usr" for again now'
      using that look by (simp add: signup_def)
    show ?thesis
      using su f good bad again by (auto simp: d'_def)
  qed
  show ?thesis
    using taken fresh by blast
qed

text \<open>The hypothesis of C8 holds for the scheme of the concrete database; a third user
  signs up and logs in, and a signup with the second user's email is refused.\<close>

theorem signup_then_login_witness:
  "uc_email new_user \<notin> email ` set (users scenario_db)
   \<and> (\<exists>d' u. signup demo_hash 0 scenario_db new_user = (d', Inr u)
         \<and> users d' = [alice, bob, u] \<and> email u = ''carol@example.com''
         \<and> login demo_verify demo_token d' ''carol@example.com'' ''s3cret''
              = Inr \<lparr>access_token = ''token:carol@example.com'', token_type = ''bearer''\<rparr>
         \<and> login demo_verify demo_token d' ''carol@example.com'' ''guess''
              = Inl (HTTPException 401 ''Incorrect email or password'')
         \<and> signup demo_hash 1 d' new_user
              = (d', Inl (HTTPException 400 ''Email already registered'')))
   \<and> uc_email (new_user\<lparr>uc_email := ''bob@example.com''\<rparr>) \<in> email ` set (users scenario_db)
   \<and> signup demo_hash 0 scenario_db (new_user\<lparr>uc_email := ''bob@example.com''\<rparr>)
        = (scenario_db, Inl (HTTPException 400 ''Email already registered''))"
proof -
  have scheme: "demo_verify q (demo_hash p) \<longleftrightarrow> q = p" for p q
    by (auto simp: demo_verify_def demo_hash_def)
  have new: "uc_email new_user \<notin> email ` set (users scenario_db)"
    by (simp add: new_user_def scenario_db_def alice_def bob_def)
  have old: "uc_email (new_user\<lparr>uc_email := ''bob@example.com''\<rparr>) \<in> email ` set (users scenario_db)"
    by (simp add: new_user_def scenario_db_def alice_def bob_def)
  have wrong: "''guess'' \<noteq> uc_password new_user"
    by (simp add: new_user_def)
  have f: "uc_email new_user = ''carol@example.com''" "uc_password new_user = ''s3cret''"
    "users scenario_db = [alice, bob]"
    by (simp_all add: new_user_def scenario_db_def)
  from signup_then_login[of demo_verify demo_hash new_user scenario_db 0 demo_token, OF scheme] new
  obtain d' u where
    "signup demo_hash 0 scenario_db new_user = (d', Inr u)"
    "users d' = users scenario_db @ [u]" "email u = uc_email new_user"
    "login demo_verify demo_token d' (uc_email new_user) (uc_password new_user)
       = Inr \<lparr>access_token = demo_token (uc_email new_user), token_type = ''bearer''\<rparr>"
    "\<forall>wrong. wrong \<noteq> uc_password new_user \<longrightarrow>
       login demo_verify demo_token d' (uc_email new_user) wrong
         = Inl (HTTPException 401 ''Incorrect email or password'')"
    "\<forall>again now'. uc_email again = uc_email new_user \<longrightarrow>
        signup demo_hash now' d' again
          = (d', Inl (HTTPException 400 ''Email already registered''))"
    by blast
  with wrong have "\<exists>d' u. signup demo_hash 0 scenario_db new_user = (d', Inr u)
         \<and> users d' = [alice, bob, u] \<and> email u = ''carol@example.com''
         \<and> login demo_verify demo_token d' ''carol@example.com'' ''s3cret''
              = Inr \<lparr>access_token = ''token:carol@example.com'', token_type = ''bearer''\<rparr>
         \<and> login demo_verify demo_token d' ''carol@example.com'' ''guess''
              = Inl (HTTPException 401 ''Incorrect email or password'')
         \<and> signup demo_hash 1 d' new_user
              = (d', Inl (HTTPException 400 ''Email already registered''))"
    using f by (auto simp: demo_token_def)
  moreover from signup_then_login[of demo_verify demo_hash
      "new_user\<lparr>uc_email := ''bob@example.com''\<rparr>" scenario_db 0 demo_token, OF scheme] old
  have "signup demo_hash 0 scenario_db (new_user\<lparr>uc_email := ''bob@example.com''\<rparr>)
        = (scenario_db, Inl (HTTPException 400 ''Email already registered''))"
    by blast
  ultimately show ?thesis
    using new old by blast
qed

subsection \<open>Monthly summary against dashboard statistics\<close>















end
